theory Spec2Isabelle
  imports Complex_Main
begin

section \<open>Values decoded from JSON\<close>

text \<open>
  The classifier's reply is decoded by \<^verbatim>\<open>json.loads\<close> into an arbitrary Python value.
  Floats are modelled by their exact rational value; rounding, infinities and NaN of
  the machine format are outside the model.
\<close>

datatype pyval =
    PNone
  | PBool bool
  | PInt int
  | PFloat rat
  | PStr string
  | PList "pyval list"
  | PDict "(string \<times> pyval) list"

text \<open>Python truthiness, as tested by \<^verbatim>\<open>if x:\<close> and \<^verbatim>\<open>x and ...\<close>.\<close>

fun truthy :: "pyval \<Rightarrow> bool" where
  "truthy PNone = False"
| "truthy (PBool b) = b"
| "truthy (PInt n) = (n \<noteq> 0)"
| "truthy (PFloat x) = (x \<noteq> 0)"
| "truthy (PStr s) = (s \<noteq> [])"
| "truthy (PList xs) = (xs \<noteq> [])"
| "truthy (PDict kvs) = (kvs \<noteq> [])"

text \<open>
  \<^verbatim>\<open>d.get(key)\<close> on a decoded JSON object: the value, or \<^verbatim>\<open>None\<close> when the key is absent.
\<close>

definition dict_get :: "(string \<times> pyval) list \<Rightarrow> string \<Rightarrow> pyval" where
  "dict_get kvs key = (case map_of kvs key of None \<Rightarrow> PNone | Some v \<Rightarrow> v)"

text \<open>
  \<^verbatim>\<open>v in choices\<close> for a choice list of strings (\<^verbatim>\<open>List[str]\<close> in the signatures): only a
  string equal to an entry is a member. The result is that string.
\<close>

fun member_of :: "pyval \<Rightarrow> string list \<Rightarrow> string option" where
  "member_of (PStr s) choices = (if s \<in> set choices then Some s else None)"
| "member_of _ choices = None"

text \<open>
  A value handed to a string parameter that the callee only uses when it is truthy:
  the string itself, and \<^verbatim>\<open>None\<close> for every value that is not a string.
\<close>

fun str_arg :: "pyval \<Rightarrow> string option" where
  "str_arg (PStr s) = Some s"
| "str_arg _ = None"

section \<open>String helpers\<close>

text \<open>
  Strings are lists of 8-bit characters. \<^verbatim>\<open>str.strip()\<close> removes the ASCII whitespace
  characters that \<^verbatim>\<open>str.isspace\<close> accepts; \<^verbatim>\<open>str.lower()\<close> maps \<^verbatim>\<open>A..Z\<close> to \<^verbatim>\<open>a..z\<close>.
\<close>

definition is_space :: "char \<Rightarrow> bool" where
  "is_space c = (let n = (of_char c :: nat) in (9 \<le> n \<and> n \<le> 13) \<or> (28 \<le> n \<and> n \<le> 32))"

definition strip :: "string \<Rightarrow> string" where
  "strip s = rev (dropWhile is_space (rev (dropWhile is_space s)))"

definition lower_char :: "char \<Rightarrow> char" where
  "lower_char c =
     (case map_of (zip ''ABCDEFGHIJKLMNOPQRSTUVWXYZ'' ''abcdefghijklmnopqrstuvwxyz'') c of
        Some l \<Rightarrow> l
      | None \<Rightarrow> c)"

definition lower :: "string \<Rightarrow> string" where
  "lower s = map lower_char s"

text \<open>\<^verbatim>\<open>text.find(c)\<close> and \<^verbatim>\<open>text.rfind(c)\<close> for a single character; \<open>None\<close> stands for \<open>-1\<close>.\<close>

definition find_char :: "char \<Rightarrow> string \<Rightarrow> nat option" where
  "find_char c s = (if c \<in> set s then Some (length (takeWhile (\<lambda>x. x \<noteq> c) s)) else None)"

definition rfind_char :: "char \<Rightarrow> string \<Rightarrow> nat option" where
  "rfind_char c s =
     (if c \<in> set s then Some (length s - 1 - length (takeWhile (\<lambda>x. x \<noteq> c) (rev s))) else None)"

text \<open>\<^verbatim>\<open>round(x, ndigits)\<close> on the exact value: to the nearest, ties to the even neighbour.\<close>

definition round_half_even :: "rat \<Rightarrow> int" where
  "round_half_even x =
     (let f = \<lfloor>x\<rfloor>; d = x - of_int f in
      if d < 1 / 2 then f else if 1 / 2 < d then f + 1 else if even f then f else f + 1)"

definition py_round :: "rat \<Rightarrow> nat \<Rightarrow> rat" where
  "py_round x ndigits = of_int (round_half_even (x * 10 ^ ndigits)) / 10 ^ ndigits"

section \<open>The environment and the observable world\<close>

text \<open>
  Incidents, request bodies and audit rows are dictionaries with string keys. The values
  of an incident are strings, as the table interface of the ticket system returns them;
  a key that is absent reads as \<^verbatim>\<open>None\<close>.
\<close>

type_synonym incident = "string \<rightharpoonup> string"
type_synonym payload = "string \<rightharpoonup> string"
type_synonym audit_row = "string \<rightharpoonup> string"
type_synonym result_record = "string \<rightharpoonup> pyval"

text \<open>
  The user message of one completion request: the description and the four choice lists.
\<close>

type_synonym request = "string \<times> string list \<times> string list \<times> string list \<times> string list"

text \<open>
  Everything the code obtains from outside the repository: the ticket system's answers,
  the completion endpoint, the clock, and the builtins whose text formats are not
  modelled. Calls that can fail return \<open>None\<close> for a raised exception. The completion
  endpoint and the PATCH endpoint are indexed by the number of earlier calls, so the
  same request may be answered differently each time.
\<close>

record env =
  get_new_incidents :: "int \<Rightarrow> incident list"
  get_choice_values :: "string \<Rightarrow> string list"
  get_priority_lookup_values :: "string \<rightharpoonup> string list"
  call_azure_openai :: "nat \<Rightarrow> request \<Rightarrow> string option"
  json_loads :: "string \<Rightarrow> pyval option"
  requests_patch :: "nat \<Rightarrow> string option \<Rightarrow> payload \<Rightarrow> nat option"
  float_of_str :: "string \<Rightarrow> rat option"
  str_of_float :: "rat \<Rightarrow> string"
  format_percent :: "rat \<Rightarrow> string"
  format_fixed3 :: "rat \<Rightarrow> string"
  utcnow_isoformat :: "nat \<Rightarrow> string"
  utcnow_strftime :: "nat \<Rightarrow> string"
  perf_ms :: "nat \<Rightarrow> int"

text \<open>The warning and error lines written by the modelled functions.\<close>

datatype error =
    RequestError
  | JSONDecodeError
  | NoJSON
  | AttributeError
  | InvalidValue string pyval

datatype log_line =
    MissingChoices
  | ClassificationFailed string
  | ErrorProcessing error
  | FailedToUpdate
  | PatchRejected nat
  | PatchError

text \<open>
  The state the code acts on: the number of clock readings taken, the completion
  requests sent, the PATCH requests sent (ticket id, body, status received), the result
  feed, the audit files by path (data rows only), and the log. The file store is
  reliable: a write that is attempted happens.
\<close>

record world =
  ticks :: nat
  llm_calls :: "request list"
  patches :: "(string option \<times> payload \<times> nat option) list"
  results_feed :: "result_record list"
  audit_files :: "string \<rightharpoonup> audit_row list"
  log_lines :: "log_line list"

section \<open>The classifier (tools/ticket\_classifier.py)\<close>

text \<open>\<^verbatim>\<open>float(x)\<close>; \<open>None\<close> when it raises \<^verbatim>\<open>TypeError\<close> or \<^verbatim>\<open>ValueError\<close>.\<close>

fun py_float :: "env \<Rightarrow> pyval \<Rightarrow> rat option" where
  "py_float e (PFloat x) = Some x"
| "py_float e (PInt n) = Some (of_int n)"
| "py_float e (PBool b) = Some (if b then 1 else 0)"
| "py_float e (PStr s) = float_of_str e s"
| "py_float e _ = None"

text \<open>Lines 100 to 114 of \<^verbatim>\<open>classify\<close>.\<close>

definition normalize_confidence :: "env \<Rightarrow> pyval \<Rightarrow> rat" where
  "normalize_confidence e confidence_raw =
     (case py_float e confidence_raw of
        Some x \<Rightarrow> x
      | None \<Rightarrow>
          (case confidence_raw of
             PStr s \<Rightarrow>
               (let norm = lower (strip s) in
                if norm = ''high'' then 9 / 10
                else if norm = ''medium'' then 6 / 10
                else if norm = ''low'' then 3 / 10
                else 0)
           | _ \<Rightarrow> 0))"

definition extract_json :: "env \<Rightarrow> string \<Rightarrow> error + pyval" where
  "extract_json e text =
     (case json_loads e text of
        Some v \<Rightarrow> Inr v
      | None \<Rightarrow>
          (case (find_char CHR ''{'' text, rfind_char CHR ''}'' text) of
             (Some start, Some end) \<Rightarrow>
               (if start < end then
                  (case json_loads e (take (end + 1 - start) (drop start text)) of
                     Some v \<Rightarrow> Inr v
                   | None \<Rightarrow> Inl JSONDecodeError)
                else Inl NoJSON)
           | _ \<Rightarrow> Inl NoJSON))"

record details =
  category :: string
  subcategory :: pyval
  impact :: string
  urgency :: string
  confidence :: rat

datatype classification = FAILED string | SUCCESS details

text \<open>
  Lines 94 to 134 of \<^verbatim>\<open>classify\<close>: the fields are read with \<^verbatim>\<open>result.get\<close> (which raises
  \<^verbatim>\<open>AttributeError\<close> on anything but an object), the confidence is normalised, and the four
  labels are checked in the order category, subcategory, impact, urgency.
\<close>

definition validate_result ::
  "env \<Rightarrow> pyval \<Rightarrow> string list \<Rightarrow> string list \<Rightarrow> string list \<Rightarrow> string list \<Rightarrow> error + details" where
  "validate_result e result category_choices subcategory_choices impact_choices urgency_choices =
     (case result of
        PDict kvs \<Rightarrow>
          (let cat = dict_get kvs ''category'';
               sub = dict_get kvs ''subcategory'';
               imp = dict_get kvs ''impact'';
               urg = dict_get kvs ''urgency'';
               confidence_raw = (case map_of kvs ''confidence'' of None \<Rightarrow> PFloat 0 | Some v \<Rightarrow> v);
               conf = normalize_confidence e confidence_raw
           in case member_of cat category_choices of
                None \<Rightarrow> Inl (InvalidValue ''category'' cat)
              | Some c \<Rightarrow>
                  if truthy sub \<and> member_of sub subcategory_choices = None
                  then Inl (InvalidValue ''subcategory'' sub)
                  else
                    (case member_of imp impact_choices of
                       None \<Rightarrow> Inl (InvalidValue ''impact'' imp)
                     | Some i \<Rightarrow>
                         (case member_of urg urgency_choices of
                            None \<Rightarrow> Inl (InvalidValue ''urgency'' urg)
                          | Some u \<Rightarrow>
                              Inr \<lparr>category = c, subcategory = sub, impact = i,
                                   urgency = u, confidence = conf\<rparr>)))
      | _ \<Rightarrow> Inl AttributeError)"

text \<open>
  \<^verbatim>\<open>classify\<close>: \<open>Inl\<close> is a raised exception, \<open>Inr\<close> the returned dictionary. The request is
  recorded in the world when, and only when, the completion endpoint is called.
\<close>

definition classify ::
  "env \<Rightarrow> world \<Rightarrow> string \<Rightarrow> string list \<Rightarrow> string list \<Rightarrow> string list \<Rightarrow> string list
     \<Rightarrow> (error + classification) \<times> world" where
  "classify e w description category_choices subcategory_choices impact_choices urgency_choices =
     (if description = [] then (Inr (FAILED ''Empty description''), w)
      else
        (let req = (description, category_choices, subcategory_choices, impact_choices, urgency_choices);
             w1 = w\<lparr>llm_calls := llm_calls w @ [req]\<rparr>
         in case call_azure_openai e (length (llm_calls w)) req of
              None \<Rightarrow> (Inl RequestError, w1)
            | Some raw \<Rightarrow>
                (case extract_json e raw of
                   Inl err \<Rightarrow> (Inl err, w1)
                 | Inr result \<Rightarrow>
                     (case validate_result e result category_choices subcategory_choices
                             impact_choices urgency_choices of
                        Inl err \<Rightarrow> (Inl err, w1)
                      | Inr d \<Rightarrow> (Inr (SUCCESS d), w1)))))"

section \<open>The connector's update operation (connectors/servicenow\_connector.py)\<close>

text \<open>
  \<^verbatim>\<open>ServiceNowConnector.update_incident\<close>. In dry-run mode it returns \<^verbatim>\<open>True\<close> at once. Otherwise it
  builds \<^verbatim>\<open>update_data\<close>, sends one PATCH request and returns whether the status was 200; an
  exception of the request is caught and gives \<^verbatim>\<open>False\<close>.
\<close>

text \<open>The statement \<^verbatim>\<open>if value: update_data[key] = value\<close>.\<close>

definition set_when_given :: "string \<Rightarrow> string option \<Rightarrow> payload \<Rightarrow> payload" where
  "set_when_given key value d =
     (case value of Some v \<Rightarrow> if v \<noteq> [] then d(key \<mapsto> v) else d | None \<Rightarrow> d)"

definition default_work_notes :: "env \<Rightarrow> string \<Rightarrow> rat \<Rightarrow> string" where
  "default_work_notes e cat conf =
     ''Auto-classified as '' @ cat @ '' (confidence: '' @ format_percent e conf
       @ '') by Task Classifier''"

definition update_data ::
  "env \<Rightarrow> world \<Rightarrow> string \<Rightarrow> rat \<Rightarrow> string option \<Rightarrow> string option \<Rightarrow> string option
     \<Rightarrow> string option \<Rightarrow> string option \<Rightarrow> string option \<Rightarrow> payload" where
  "update_data e w cat conf assignment_group work_notes snow_category sub imp urg =
     (let d0 = [''u_auto_classification_category'' \<mapsto> cat,
                ''u_confidence_score'' \<mapsto> str_of_float e (py_round (conf * 100) 2),
                ''u_auto_classified'' \<mapsto> ''true'',
                ''u_classification_timestamp'' \<mapsto> utcnow_isoformat e (ticks w)];
          d1 = set_when_given ''assignment_group'' assignment_group d0;
          d2 = (case snow_category of
                  Some s \<Rightarrow> if s \<noteq> [] then d1(''category'' \<mapsto> take 40 s) else d1
                | None \<Rightarrow> d1);
          d3 = set_when_given ''subcategory'' sub d2;
          d4 = set_when_given ''impact'' imp d3;
          d5 = set_when_given ''urgency'' urg d4
      in d5(''work_notes'' \<mapsto>
              (case work_notes of
                 Some n \<Rightarrow> if n \<noteq> [] then n else default_work_notes e cat conf
               | None \<Rightarrow> default_work_notes e cat conf)))"

definition update_incident ::
  "env \<Rightarrow> bool \<Rightarrow> world \<Rightarrow> string option \<Rightarrow> string \<Rightarrow> rat \<Rightarrow> string option \<Rightarrow> string option
     \<Rightarrow> string option \<Rightarrow> string option \<Rightarrow> string option \<Rightarrow> string option \<Rightarrow> bool \<times> world" where
  "update_incident e dry_run w ticket_id cat conf assignment_group work_notes snow_category sub imp urg =
     (if dry_run then (True, w)
      else
        (let body = update_data e w cat conf assignment_group work_notes snow_category sub imp urg;
             response = requests_patch e (length (patches w)) ticket_id body;
             w1 = w\<lparr>ticks := ticks w + 1, patches := patches w @ [(ticket_id, body, response)]\<rparr>
         in case response of
              Some status \<Rightarrow>
                if status = 200 then (True, w1)
                else (False, w1\<lparr>log_lines := log_lines w1 @ [PatchRejected status]\<rparr>)
            | None \<Rightarrow> (False, w1\<lparr>log_lines := log_lines w1 @ [PatchError]\<rparr>)))"

section \<open>The recorder (tools/output\_writer.py)\<close>

text \<open>
  \<^verbatim>\<open>append_task_result\<close> reads the feed (a missing or undecodable file reads as the empty
  list), appends one record and writes the feed back. \<^verbatim>\<open>append_audit_entry\<close> appends one row
  to the file at the given path, creating the file when it is missing. A field that is
  \<^verbatim>\<open>None\<close> is written as the empty string.
\<close>

definition append_task_result ::
  "env \<Rightarrow> world \<Rightarrow> string option \<Rightarrow> string \<Rightarrow> string \<Rightarrow> rat \<Rightarrow> string list \<Rightarrow> int \<Rightarrow> world" where
  "append_task_result e w ticket_id input_text cat conf matched_keywords execution_time_ms =
     (let rec = [''timestamp'' \<mapsto> PStr (utcnow_isoformat e (ticks w) @ ''Z''),
                 ''ticket_id'' \<mapsto> (case ticket_id of None \<Rightarrow> PNone | Some t \<Rightarrow> PStr t),
                 ''input_text'' \<mapsto> PStr input_text,
                 ''category'' \<mapsto> PStr cat,
                 ''confidence'' \<mapsto> PFloat conf,
                 ''matched_keywords'' \<mapsto> PList (map PStr matched_keywords),
                 ''execution_time_ms'' \<mapsto> PInt execution_time_ms]
      in w\<lparr>ticks := ticks w + 1, results_feed := results_feed w @ [rec]\<rparr>)"

definition or_empty :: "string option \<Rightarrow> string" where
  "or_empty x = (case x of None \<Rightarrow> [] | Some s \<Rightarrow> s)"

definition rows_at :: "world \<Rightarrow> string \<Rightarrow> audit_row list" where
  "rows_at w path = (case audit_files w path of None \<Rightarrow> [] | Some rows \<Rightarrow> rows)"

definition append_audit_entry ::
  "env \<Rightarrow> world \<Rightarrow> string \<Rightarrow> string option \<Rightarrow> string option \<Rightarrow> string option \<Rightarrow> string \<Rightarrow> rat
     \<Rightarrow> string \<Rightarrow> bool \<Rightarrow> world" where
  "append_audit_entry e w audit_csv_path ticket_number ticket_id old_category new_category conf
       run_timestamp dry_run =
     (let row = [''run_timestamp'' \<mapsto> run_timestamp,
                 ''ticket_number'' \<mapsto> or_empty ticket_number,
                 ''ticket_id'' \<mapsto> or_empty ticket_id,
                 ''old_category'' \<mapsto> or_empty old_category,
                 ''new_category'' \<mapsto> new_category,
                 ''confidence'' \<mapsto> format_fixed3 e conf,
                 ''dry_run'' \<mapsto> (if dry_run then ''True'' else ''False'')]
      in w\<lparr>audit_files := (audit_files w)(audit_csv_path \<mapsto> rows_at w audit_csv_path @ [row])\<rparr>)"

section \<open>The cycle (app/scheduler.py)\<close>

record stats =
  retrieved :: nat
  classified :: nat
  updated :: nat
  errors :: nat

text \<open>
  The body of the per-incident loop of \<^verbatim>\<open>process_tickets\<close> (lines 128 to 225). The connector is
  \<^verbatim>\<open>ServiceNowConnector\<close>, created with the scheduler's own dry-run flag; the mock connector
  of the tests is not modelled. The counters are those of one cycle; the cumulative
  counters of the scheduler and the informational log lines are left out.
\<close>

definition process_incident ::
  "env \<Rightarrow> bool \<Rightarrow> string option \<Rightarrow> string \<Rightarrow> string list \<Rightarrow> string list \<Rightarrow> string list
     \<Rightarrow> string list \<Rightarrow> world \<times> stats \<Rightarrow> incident \<Rightarrow> world \<times> stats" where
  "process_incident e dry_run audit_csv_path run_ts category_choices subcategory_choices
       impact_choices urgency_choices state inc =
     (let w = fst state; st = snd state;
          ticket_id = inc ''sys_id'';
          ticket_number = inc ''number'';
          description = or_empty (inc ''short_description'');
          old_category = inc ''category''
      in case classify e w description category_choices subcategory_choices
                impact_choices urgency_choices of
           (Inl err, w1) \<Rightarrow>
             (w1\<lparr>log_lines := log_lines w1 @ [ErrorProcessing err]\<rparr>, st\<lparr>errors := errors st + 1\<rparr>)
         | (Inr (FAILED summary), w1) \<Rightarrow>
             (w1\<lparr>log_lines := log_lines w1 @ [ClassificationFailed summary]\<rparr>,
              st\<lparr>errors := errors st + 1\<rparr>)
         | (Inr (SUCCESS d), w1) \<Rightarrow>
             (let st1 = st\<lparr>classified := classified st + 1\<rparr>;
                  w2 = append_task_result e w1 ticket_id description (category d) (confidence d)
                         [] (perf_ms e (ticks w1));
                  work_notes = ''Auto-classified as '' @ category d @ '' (''
                     @ format_percent e (confidence d) @ '')'' @ [CHR 0x0A]
                     @ ''Keywords matched: '' @ [CHR 0x0A]
                     @ ''Processed by Task Classifier at '' @ utcnow_isoformat e (ticks w2);
                  w3 = w2\<lparr>ticks := ticks w2 + 1\<rparr>;
                  res = update_incident e dry_run w3 ticket_id (category d) (confidence d) None
                          (Some work_notes) (Some (category d)) (str_arg (subcategory d))
                          (Some (impact d)) (Some (urgency d));
                  w4 = snd res
              in if fst res then
                   (case audit_csv_path of
                      Some path \<Rightarrow>
                        append_audit_entry e w4 path ticket_number ticket_id old_category
                          (category d) (confidence d) run_ts dry_run
                    | None \<Rightarrow> w4,
                    st1\<lparr>updated := updated st1 + 1\<rparr>)
                 else
                   (w4\<lparr>log_lines := log_lines w4 @ [FailedToUpdate]\<rparr>,
                    st1\<lparr>errors := errors st1 + 1\<rparr>)))"

fun process_loop ::
  "env \<Rightarrow> bool \<Rightarrow> string option \<Rightarrow> string \<Rightarrow> string list \<Rightarrow> string list \<Rightarrow> string list
     \<Rightarrow> string list \<Rightarrow> incident list \<Rightarrow> world \<times> stats \<Rightarrow> world \<times> stats" where
  "process_loop e dry_run path run_ts cc sc ic uc [] state = state"
| "process_loop e dry_run path run_ts cc sc ic uc (inc # incs) state =
     process_loop e dry_run path run_ts cc sc ic uc incs
       (process_incident e dry_run path run_ts cc sc ic uc state inc)"

text \<open>The audit file of a live cycle that takes its run timestamp in world \<open>w\<close>.\<close>

definition audit_path :: "env \<Rightarrow> world \<Rightarrow> string" where
  "audit_path e w = ''outputs/audit_'' @ utcnow_strftime e (ticks w) @ ''.csv''"

definition process_tickets ::
  "env \<Rightarrow> bool \<Rightarrow> world \<Rightarrow> int \<Rightarrow> int option \<Rightarrow> stats \<times> world" where
  "process_tickets e dry_run w limit sample_size =
     (let fetched = get_new_incidents e limit;
          cycle_stats = \<lparr>retrieved = length fetched, classified = 0, updated = 0, errors = 0\<rparr>
      in if fetched = [] then (cycle_stats, w)
         else
           (let incidents =
                  (case sample_size of
                     Some n \<Rightarrow> if 0 < n then take (nat n) fetched else fetched
                   | None \<Rightarrow> fetched);
                category_choices = get_choice_values e ''category'';
                subcategory_choices = get_choice_values e ''subcategory'';
                priority_values = get_priority_lookup_values e;
                impact_choices = (case priority_values ''impact'' of None \<Rightarrow> [] | Some xs \<Rightarrow> xs);
                urgency_choices = (case priority_values ''urgency'' of None \<Rightarrow> [] | Some xs \<Rightarrow> xs)
            in if category_choices = [] \<or> impact_choices = [] \<or> urgency_choices = [] then
                 (cycle_stats, w\<lparr>log_lines := log_lines w @ [MissingChoices]\<rparr>)
               else
                 (let run_ts = utcnow_strftime e (ticks w);
                      audit_csv_path = (if dry_run then None else Some (audit_path e w));
                      w1 = w\<lparr>ticks := ticks w + 1\<rparr>;
                      final = process_loop e dry_run audit_csv_path run_ts category_choices
                                subcategory_choices impact_choices urgency_choices incidents
                                (w1, cycle_stats)
                  in (snd final, fst final))))"

section \<open>The rollback executor (tools/rollback\_from\_audit.py)\<close>

text \<open>
  The dictionary \<^verbatim>\<open>patch_data\<close> that \<^verbatim>\<open>main\<close> builds for every row. Only its work-note is
  passed on; the request body is built by \<^verbatim>\<open>update_incident\<close>.
\<close>

definition rollback_note :: "string \<Rightarrow> string \<Rightarrow> string" where
  "rollback_note old_category new_category =
     ''Rollback: restored category to '' @ [CHR 0x27] @ old_category @ [CHR 0x27]
       @ '' (was: '' @ [CHR 0x27] @ new_category @ [CHR 0x27] @ '')''"

definition patch_data :: "string \<Rightarrow> string \<Rightarrow> payload" where
  "patch_data old_category new_category =
     [''category'' \<mapsto> old_category,
      ''u_auto_classified'' \<mapsto> ''false'',
      ''u_auto_classification_category'' \<mapsto> [],
      ''work_notes'' \<mapsto> rollback_note old_category new_category]"

type_synonym action = "string option \<times> string option \<times> string \<times> string"

definition row_action :: "audit_row \<Rightarrow> action" where
  "row_action row =
     (row ''ticket_id'', row ''ticket_number'', or_empty (row ''old_category''),
      or_empty (row ''new_category''))"

fun rollback_loop :: "env \<Rightarrow> bool \<Rightarrow> action list \<Rightarrow> world \<Rightarrow> world" where
  "rollback_loop e commit [] w = w"
| "rollback_loop e commit ((ticket_id, ticket_number, old_category, new_category) # rest) w =
     (if \<not> commit then rollback_loop e commit rest w
      else
        rollback_loop e commit rest
          (snd (update_incident e (\<not> commit) w ticket_id old_category 0 None
                  (patch_data old_category new_category ''work_notes'')
                  (Some old_category) None None None)))"

definition main :: "env \<Rightarrow> world \<Rightarrow> string \<Rightarrow> bool \<Rightarrow> world" where
  "main e w audit_file commit =
     (case audit_files w audit_file of
        None \<Rightarrow> w
      | Some rows \<Rightarrow> rollback_loop e commit (map row_action rows) w)"

section \<open>Notions used in the statements\<close>

text \<open>
  A log line that reports a failed classification: the warning for a returned failure
  and the error for an exception raised while the incident was processed. In the model
  the only exception raised inside the loop body is one raised by \<^verbatim>\<open>classify\<close>.
\<close>

definition classification_failure :: "log_line \<Rightarrow> bool" where
  "classification_failure l =
     (case l of ClassificationFailed s \<Rightarrow> True | ErrorProcessing err \<Rightarrow> True | _ \<Rightarrow> False)"

definition classification_failures :: "log_line list \<Rightarrow> nat" where
  "classification_failures ls = length (filter classification_failure ls)"

text \<open>The log lines that \<^verbatim>\<open>update_incident\<close> writes for a response.\<close>

definition patch_log :: "nat option \<Rightarrow> log_line list" where
  "patch_log r =
     (case r of
        Some status \<Rightarrow> if status = 200 then [] else [PatchRejected status]
      | None \<Rightarrow> [PatchError])"

text \<open>A classification outcome that lets the cycle go on to the update.\<close>

definition classified_ok :: "error + classification \<Rightarrow> bool" where
  "classified_ok r = (case r of Inr (SUCCESS d) \<Rightarrow> True | _ \<Rightarrow> False)"

text \<open>The condition under which \<^verbatim>\<open>classify\<close> raises for a decoded object.\<close>

definition out_of_vocabulary ::
  "(string \<times> pyval) list \<Rightarrow> string list \<Rightarrow> string list \<Rightarrow> string list \<Rightarrow> string list \<Rightarrow> bool" where
  "out_of_vocabulary kvs cc sc ic uc =
     (member_of (dict_get kvs ''category'') cc = None
      \<or> (truthy (dict_get kvs ''subcategory'') \<and> member_of (dict_get kvs ''subcategory'') sc = None)
      \<or> member_of (dict_get kvs ''impact'') ic = None
      \<or> member_of (dict_get kvs ''urgency'') uc = None)"

text \<open>
  What the rollback executor sends for one row of the audit file, as \<^verbatim>\<open>update_incident\<close>
  builds the request from the arguments \<^verbatim>\<open>main\<close> passes.
\<close>

definition rollback_request :: "action \<Rightarrow> string option \<times> payload \<times> nat option \<Rightarrow> bool" where
  "rollback_request a p =
     (case a of (ticket_id, ticket_number, old_category, new_category) \<Rightarrow>
        (case p of (sent_id, body, response) \<Rightarrow>
           sent_id = ticket_id
           \<and> body ''category'' = (if old_category = [] then None else Some (take 40 old_category))
           \<and> body ''u_auto_classified'' = Some ''true''
           \<and> body ''u_auto_classification_category'' = Some old_category
           \<and> body ''work_notes'' = Some (rollback_note old_category new_category)))"

text \<open>One field of a logged PATCH request body, and one field of an audit row.\<close>

definition body_field :: "string \<Rightarrow> string option \<times> payload \<times> nat option \<Rightarrow> string option" where
  "body_field key p = fst (snd p) key"

definition row_field :: "string \<Rightarrow> audit_row \<Rightarrow> string option" where
  "row_field key row = row key"


section \<open>A scripted environment for concrete runs\<close>

text \<open>
  A reading of \<^verbatim>\<open>float\<close> on strings that converts plain decimals (digits, optionally a
  point and more digits) and rejects everything else. It is used only on inputs where
  Python's \<^verbatim>\<open>float\<close> does the same.
\<close>

definition is_digit :: "char \<Rightarrow> bool" where
  "is_digit c = (let n = (of_char c :: nat) in 48 \<le> n \<and> n \<le> 57)"

definition digits_value :: "string \<Rightarrow> nat" where
  "digits_value s = foldl (\<lambda>a c. 10 * a + (of_char c - 48)) 0 s"

definition decimal_literal :: "string \<Rightarrow> rat option" where
  "decimal_literal s =
     (let ip = takeWhile is_digit s; rest = dropWhile is_digit s in
      if ip = [] then None
      else (case rest of
              [] \<Rightarrow> Some (of_nat (digits_value ip))
            | c # fp \<Rightarrow>
                if c = CHR ''.'' \<and> fp \<noteq> [] \<and> list_all is_digit fp
                then Some (of_nat (digits_value ip) + of_nat (digits_value fp) / 10 ^ length fp)
                else None))"

text \<open>
  The ticket system returns the given incidents and category choices; the completion
  endpoint answers with the description itself, which \<open>replies\<close> decodes; the PATCH
  endpoint answers the \<open>n\<close>-th request with \<open>statuses n\<close>.
\<close>

definition scripted_env ::
  "incident list \<Rightarrow> string list \<Rightarrow> (string \<rightharpoonup> pyval) \<Rightarrow> (nat \<Rightarrow> nat option) \<Rightarrow> env" where
  "scripted_env incidents categories replies statuses =
     \<lparr>get_new_incidents = (\<lambda>limit. incidents),
      get_choice_values = (\<lambda>element. if element = ''category'' then categories
                                      else if element = ''subcategory'' then [''Email'', ''VPN'']
                                      else []),
      get_priority_lookup_values = [''impact'' \<mapsto> [''1'', ''2'', ''3''],
                                    ''urgency'' \<mapsto> [''1'', ''2'', ''3''],
                                    ''priority'' \<mapsto> [''1'', ''2'', ''3'', ''4'', ''5'']],
      call_azure_openai = (\<lambda>n req. Some (fst req)),
      json_loads = replies,
      requests_patch = (\<lambda>n ticket_id body. statuses n),
      float_of_str = decimal_literal,
      str_of_float = (\<lambda>x. ''<float>''),
      format_percent = (\<lambda>x. ''<percent>''),
      format_fixed3 = (\<lambda>x. ''<fixed>''),
      utcnow_isoformat = (\<lambda>n. ''2026-01-13T11:50:55''),
      utcnow_strftime = (\<lambda>n. ''20260113T115055Z''),
      perf_ms = (\<lambda>n. 0)\<rparr>"

definition world0 :: world where
  "world0 = \<lparr>ticks = 0, llm_calls = [], patches = [], results_feed = [], audit_files = Map.empty,
             log_lines = []\<rparr>"

definition reply :: "string \<Rightarrow> pyval \<Rightarrow> pyval \<Rightarrow> pyval" where
  "reply cat sub conf =
     PDict [(''category'', PStr cat), (''subcategory'', sub), (''impact'', PStr ''2''),
            (''urgency'', PStr ''3''), (''confidence'', conf)]"

definition demo_replies :: "string \<rightharpoonup> pyval" where
  "demo_replies =
     [''vpn down'' \<mapsto> reply ''Network'' (PStr ''VPN'') (PStr ''High''),
      ''mail bounces'' \<mapsto> reply ''Software'' PNone (PFloat (73 / 100)),
      ''printer jam'' \<mapsto> reply ''Hardware'' PNone (PFloat (9 / 10)),
      ''disk full'' \<mapsto> reply ''Database'' (PStr []) (PFloat (1 / 2)),
      ''no label'' \<mapsto> reply [] PNone (PFloat (1 / 2))]"

definition ticket :: "string \<Rightarrow> string \<Rightarrow> string \<Rightarrow> incident" where
  "ticket sys_id description cat =
     [''sys_id'' \<mapsto> sys_id, ''number'' \<mapsto> ''INC'' @ sys_id,
      ''short_description'' \<mapsto> description, ''category'' \<mapsto> cat]"

definition demo_categories :: "string list" where
  "demo_categories = [''Network'', ''Software'', ''Database'']"

definition demo_choices :: "string list" where
  "demo_choices = [''1'', ''2'', ''3'']"


text \<open>The environments, incident lists and audit files of the concrete runs.\<close>

definition demo_env :: env where
  "demo_env =
     scripted_env
       [ticket ''1'' ''vpn down'' ''inquiry'', ticket ''2'' [] ''inquiry'',
        ticket ''3'' ''mail bounces'' []]
       demo_categories demo_replies (\<lambda>n. Some 200)"

definition no_choices_env :: env where
  "no_choices_env =
     scripted_env [ticket ''1'' ''vpn down'' ''inquiry'', ticket ''2'' ''mail bounces'' []]
       [] demo_replies (\<lambda>n. Some 200)"

definition unknown_category_env :: env where
  "unknown_category_env =
     scripted_env [ticket ''8'' ''printer jam'' ''inquiry''] demo_categories demo_replies (\<lambda>n. Some 200)"

definition blank_subcategory_env :: env where
  "blank_subcategory_env =
     scripted_env [ticket ''4'' ''disk full'' ''inquiry''] demo_categories demo_replies (\<lambda>n. Some 200)"


definition uncategorised_env :: env where
  "uncategorised_env =
     scripted_env [ticket ''3'' ''mail bounces'' []] demo_categories demo_replies (\<lambda>n. Some 200)"

definition five_tickets :: "incident list" where
  "five_tickets =
     [ticket ''1'' ''vpn down'' ''inquiry'', ticket ''2'' [] ''inquiry'',
      ticket ''3'' ''mail bounces'' [], ticket ''4'' ''disk full'' ''inquiry'',
      ticket ''5'' ''vpn down'' ''hardware'']"

definition five_env :: env where
  "five_env = scripted_env five_tickets demo_categories demo_replies (\<lambda>n. Some 200)"

definition five_start :: "world \<times> stats" where
  "five_start = (world0\<lparr>ticks := 1\<rparr>, \<lparr>retrieved = 5, classified = 0, updated = 0, errors = 0\<rparr>)"

definition five_loop :: "incident list \<Rightarrow> world \<times> stats \<Rightarrow> world \<times> stats" where
  "five_loop = process_loop five_env True None ''20260113T115055Z'' demo_categories [''Email'', ''VPN'']
                 [''1'', ''2'', ''3''] [''1'', ''2'', ''3'']"

definition audit_row_of :: "string \<Rightarrow> string \<Rightarrow> string \<Rightarrow> audit_row" where
  "audit_row_of sys_id old_category new_category =
     [''run_timestamp'' \<mapsto> ''20260113T115055Z'', ''ticket_number'' \<mapsto> ''INC'' @ sys_id,
      ''ticket_id'' \<mapsto> sys_id, ''old_category'' \<mapsto> old_category,
      ''new_category'' \<mapsto> new_category, ''confidence'' \<mapsto> ''0.900'', ''dry_run'' \<mapsto> ''False'']"

definition audit_world :: "audit_row list \<Rightarrow> world" where
  "audit_world rows = world0\<lparr>audit_files := [''outputs/audit_20260113T115055Z.csv'' \<mapsto> rows]\<rparr>"

section \<open>Frame and step lemmas\<close>

lemmas run_defs =
  process_tickets_def scripted_env_def world0_def ticket_def demo_replies_def reply_def
  demo_categories_def process_incident_def classify_def extract_json_def validate_result_def
  dict_get_def normalize_confidence_def decimal_literal_def is_digit_def digits_value_def
  lower_def lower_char_def strip_def is_space_def update_incident_def update_data_def set_when_given_def
  default_work_notes_def append_task_result_def
  append_audit_entry_def or_empty_def rows_at_def audit_path_def Let_def

lemmas rollback_defs =
  main_def row_action_def patch_data_def rollback_note_def audit_world_def audit_row_of_def

lemma classification_failures_simps [simp]:
  "classification_failures [] = 0"
  "classification_failures (xs @ ys) = classification_failures xs + classification_failures ys"
  "classification_failures [ClassificationFailed s] = 1"
  "classification_failures [ErrorProcessing err] = 1"
  "classification_failures [FailedToUpdate] = 0"
  "classification_failures [PatchRejected n] = 0"
  "classification_failures [PatchError] = 0"
  "classification_failures [MissingChoices] = 0"
  by (simp_all add: classification_failures_def classification_failure_def)

lemma classify_empty: "classify e w [] cc sc ic uc = (Inr (FAILED ''Empty description''), w)"
  by (simp add: classify_def)

lemma classify_world:
  "d \<noteq> [] \<Longrightarrow> snd (classify e w d cc sc ic uc) = w\<lparr>llm_calls := llm_calls w @ [(d, cc, sc, ic, uc)]\<rparr>"
  by (simp add: classify_def Let_def split: option.splits sum.splits)

lemma update_incident_dry: "update_incident e True w tid c conf ag wn sn sub imp urg = (True, w)"
  by (simp add: update_incident_def)

lemma classification_failures_patch_log [simp]: "classification_failures (patch_log r) = 0"
  by (simp add: patch_log_def split: option.splits)

lemma update_incident_live:
  "update_incident e False w tid c conf ag wn sn sub imp urg =
     (requests_patch e (length (patches w)) tid (update_data e w c conf ag wn sn sub imp urg) = Some 200,
      w\<lparr>ticks := ticks w + 1,
        patches := patches w @ [(tid, update_data e w c conf ag wn sn sub imp urg,
                     requests_patch e (length (patches w)) tid (update_data e w c conf ag wn sn sub imp urg))],
        log_lines := log_lines w @ patch_log (requests_patch e (length (patches w)) tid (update_data e w c conf ag wn sn sub imp urg))\<rparr>)"
  by (simp add: update_incident_def Let_def patch_log_def split: option.splits)

lemma process_incident_raised:
  "classify e w (or_empty (inc ''short_description'')) cc sc ic uc = (Inl err, w1) \<Longrightarrow>
   process_incident e dry path run_ts cc sc ic uc (w, st) inc =
     (w1\<lparr>log_lines := log_lines w1 @ [ErrorProcessing err]\<rparr>, st\<lparr>errors := errors st + 1\<rparr>)"
  by (simp add: process_incident_def)

lemma process_incident_failed:
  "classify e w (or_empty (inc ''short_description'')) cc sc ic uc = (Inr (FAILED s), w1) \<Longrightarrow>
   process_incident e dry path run_ts cc sc ic uc (w, st) inc =
     (w1\<lparr>log_lines := log_lines w1 @ [ClassificationFailed s]\<rparr>, st\<lparr>errors := errors st + 1\<rparr>)"
  by (simp add: process_incident_def)

lemma process_incident_success_dry:
  "classify e w (or_empty (inc ''short_description'')) cc sc ic uc = (Inr (SUCCESS d), w1) \<Longrightarrow>
   process_incident e True None run_ts cc sc ic uc (w, st) inc =
     ((append_task_result e w1 (inc ''sys_id'') (or_empty (inc ''short_description'')) (category d) (confidence d) [] (perf_ms e (ticks w1)))
         \<lparr>ticks := ticks w1 + 2\<rparr>,
      st\<lparr>classified := classified st + 1, updated := updated st + 1\<rparr>)"
  by (simp add: process_incident_def Let_def update_incident_dry append_task_result_def)


lemma classify_frame:
  "ticks (snd (classify e w d cc sc ic uc)) = ticks w
   \<and> patches (snd (classify e w d cc sc ic uc)) = patches w
   \<and> results_feed (snd (classify e w d cc sc ic uc)) = results_feed w
   \<and> audit_files (snd (classify e w d cc sc ic uc)) = audit_files w
   \<and> log_lines (snd (classify e w d cc sc ic uc)) = log_lines w"
  by (cases "d = []") (simp_all add: classify_empty classify_world)

lemma process_incident_success:
  "classify e w (or_empty (inc ''short_description'')) cc sc ic uc = (Inr (SUCCESS d), w1) \<Longrightarrow>
   process_incident e dry path run_ts cc sc ic uc (w, st) inc =
     (let w2 = append_task_result e w1 (inc ''sys_id'') (or_empty (inc ''short_description''))
                 (category d) (confidence d) [] (perf_ms e (ticks w1));
          w3 = w2\<lparr>ticks := ticks w2 + 1\<rparr>;
          res = update_incident e dry w3 (inc ''sys_id'') (category d) (confidence d) None
                  (Some (''Auto-classified as '' @ category d @ '' (''
                     @ format_percent e (confidence d) @ '')'' @ [CHR 0x0A]
                     @ ''Keywords matched: '' @ [CHR 0x0A]
                     @ ''Processed by Task Classifier at '' @ utcnow_isoformat e (ticks w2)))
                  (Some (category d)) (str_arg (subcategory d)) (Some (impact d)) (Some (urgency d))
      in if fst res then
           (case path of
              Some p \<Rightarrow> append_audit_entry e (snd res) p (inc ''number'') (inc ''sys_id'')
                          (inc ''category'') (category d) (confidence d) run_ts dry
            | None \<Rightarrow> snd res,
            st\<lparr>classified := classified st + 1, updated := updated st + 1\<rparr>)
         else
           ((snd res)\<lparr>log_lines := log_lines (snd res) @ [FailedToUpdate]\<rparr>,
            st\<lparr>classified := classified st + 1, errors := errors st + 1\<rparr>))"
  by (simp add: process_incident_def Let_def)

lemma update_incident_frame:
  "llm_calls (snd (update_incident e dry w tid c conf ag wn sn sub imp urg)) = llm_calls w
   \<and> results_feed (snd (update_incident e dry w tid c conf ag wn sn sub imp urg)) = results_feed w
   \<and> audit_files (snd (update_incident e dry w tid c conf ag wn sn sub imp urg)) = audit_files w
   \<and> classification_failures (log_lines (snd (update_incident e dry w tid c conf ag wn sn sub imp urg)))
       = classification_failures (log_lines w)"
  by (cases dry) (simp_all add: update_incident_dry update_incident_live)

lemma append_audit_entry_frame:
  "ticks (append_audit_entry e w p tn tid oc nc conf ts dry) = ticks w
   \<and> llm_calls (append_audit_entry e w p tn tid oc nc conf ts dry) = llm_calls w
   \<and> patches (append_audit_entry e w p tn tid oc nc conf ts dry) = patches w
   \<and> results_feed (append_audit_entry e w p tn tid oc nc conf ts dry) = results_feed w
   \<and> log_lines (append_audit_entry e w p tn tid oc nc conf ts dry) = log_lines w"
  by (simp add: append_audit_entry_def)

lemma append_task_result_frame:
  "llm_calls (append_task_result e w tid txt c conf kws ms) = llm_calls w
   \<and> patches (append_task_result e w tid txt c conf kws ms) = patches w
   \<and> audit_files (append_task_result e w tid txt c conf kws ms) = audit_files w
   \<and> log_lines (append_task_result e w tid txt c conf kws ms) = log_lines w
   \<and> length (results_feed (append_task_result e w tid txt c conf kws ms)) = Suc (length (results_feed w))
   \<and> take (length (results_feed w)) (results_feed (append_task_result e w tid txt c conf kws ms)) = results_feed w"
  by (simp add: append_task_result_def)

lemma process_incident_counters:
  assumes "process_incident e dry path run_ts cc sc ic uc (w, st) inc = (w', st')"
  shows "retrieved st' = retrieved st
     \<and> classified st' + classification_failures (log_lines w')
         = Suc (classified st + classification_failures (log_lines w))
     \<and> classified st' \<le> Suc (classified st)
     \<and> (updated st \<le> classified st \<longrightarrow> updated st' \<le> classified st')
     \<and> errors st' + updated st' = Suc (errors st + updated st)"
proof -
  let ?d = "or_empty (inc ''short_description'')"
  obtain r w1 where c: "classify e w ?d cc sc ic uc = (r, w1)"
    by force
  have w1: "log_lines w1 = log_lines w"
    using classify_frame [of e w ?d cc sc ic uc] c by simp
  show ?thesis
  proof (cases r)
    case (Inl err)
    then show ?thesis
      using assms w1 by (auto simp: process_incident_raised [where inc = inc and ?w1.0 = w1 and err = err, OF c [unfolded Inl]])
  next
    case (Inr cl)
    show ?thesis
    proof (cases cl)
      case (FAILED s)
      then show ?thesis
        using assms w1 by (auto simp: process_incident_failed [where inc = inc and ?w1.0 = w1 and s = s, OF c [unfolded Inr FAILED]])
    next
      case (SUCCESS d)
      then have c': "classify e w ?d cc sc ic uc = (Inr (SUCCESS d), w1)"
        using c Inr by simp
      let ?w2 = "append_task_result e w1 (inc ''sys_id'') ?d (category d) (confidence d) []
                   (perf_ms e (ticks w1))"
      let ?res = "update_incident e dry (?w2\<lparr>ticks := ticks ?w2 + 1\<rparr>) (inc ''sys_id'') (category d)
                    (confidence d) None
                    (Some (''Auto-classified as '' @ category d @ '' (''
                       @ format_percent e (confidence d) @ '')'' @ [CHR 0x0A]
                       @ ''Keywords matched: '' @ [CHR 0x0A]
                       @ ''Processed by Task Classifier at '' @ utcnow_isoformat e (ticks ?w2)))
                    (Some (category d)) (str_arg (subcategory d)) (Some (impact d)) (Some (urgency d))"
      have res: "classification_failures (log_lines (snd ?res)) = classification_failures (log_lines w)"
        using update_incident_frame [of e dry "?w2\<lparr>ticks := ticks ?w2 + 1\<rparr>"] w1
        by (simp add: append_task_result_frame)
      note step = process_incident_success [where inc = inc and d = d and ?w1.0 = w1 and dry = dry
          and path = path and run_ts = run_ts and st = st, OF c', unfolded Let_def]
      show ?thesis
      proof (cases "fst ?res")
        case True
        then have "st' = st\<lparr>classified := classified st + 1, updated := updated st + 1\<rparr>"
          and "classification_failures (log_lines w') = classification_failures (log_lines w)"
          using assms step res by (auto simp: append_audit_entry_frame split: option.splits)
        then show ?thesis by simp
      next
        case False
        then have "st' = st\<lparr>classified := classified st + 1, errors := errors st + 1\<rparr>"
          and "classification_failures (log_lines w') = classification_failures (log_lines w)"
          using assms step res by auto
        then show ?thesis by simp
      qed
    qed
  qed
qed


lemma process_loop_append:
  "process_loop e dry path run_ts cc sc ic uc (xs @ ys) state =
     process_loop e dry path run_ts cc sc ic uc ys (process_loop e dry path run_ts cc sc ic uc xs state)"
  by (induction xs arbitrary: state) simp_all

lemma process_loop_counters:
  "process_loop e dry path run_ts cc sc ic uc incs (w, st) = (w', st') \<Longrightarrow>
   retrieved st' = retrieved st
   \<and> classified st' + classification_failures (log_lines w')
       = classified st + classification_failures (log_lines w) + length incs
   \<and> classified st' \<le> classified st + length incs
   \<and> (updated st \<le> classified st \<longrightarrow> updated st' \<le> classified st')
   \<and> errors st' + updated st' = errors st + updated st + length incs"
proof (induction incs arbitrary: w st)
  case Nil
  then show ?case by simp
next
  case (Cons inc incs)
  obtain w1 st1 where step: "process_incident e dry path run_ts cc sc ic uc (w, st) inc = (w1, st1)"
    by force
  with Cons.prems have rest: "process_loop e dry path run_ts cc sc ic uc incs (w1, st1) = (w', st')"
    by simp
  from process_incident_counters [OF step] Cons.IH [OF rest] show ?case
    by simp
qed

lemma process_incident_dry_frame:
  assumes "process_incident e True None run_ts cc sc ic uc (w, st) inc = (w', st')"
  shows "patches w' = patches w \<and> audit_files w' = audit_files w
     \<and> length (results_feed w') + classified st = length (results_feed w) + classified st'
     \<and> take (length (results_feed w)) (results_feed w') = results_feed w"
proof -
  let ?d = "or_empty (inc ''short_description'')"
  obtain r w1 where c: "classify e w ?d cc sc ic uc = (r, w1)"
    by force
  have w1: "patches w1 = patches w" "audit_files w1 = audit_files w" "results_feed w1 = results_feed w"
    using classify_frame [of e w ?d cc sc ic uc] c by simp_all
  show ?thesis
  proof (cases r)
    case (Inl err)
    then show ?thesis
      using assms w1
      by (auto simp: process_incident_raised [where inc = inc and ?w1.0 = w1 and err = err, OF c [unfolded Inl]])
  next
    case (Inr cl)
    show ?thesis
    proof (cases cl)
      case (FAILED s)
      then show ?thesis
        using assms w1
        by (auto simp: process_incident_failed [where inc = inc and ?w1.0 = w1 and s = s, OF c [unfolded Inr FAILED]])
    next
      case (SUCCESS d)
      then have c': "classify e w ?d cc sc ic uc = (Inr (SUCCESS d), w1)"
        using c Inr by simp
      show ?thesis
        using assms w1
        by (auto simp: process_incident_success_dry [where inc = inc and d = d and ?w1.0 = w1, OF c']
              append_task_result_def)
    qed
  qed
qed

lemma process_loop_dry_frame:
  "process_loop e True None run_ts cc sc ic uc incs (w, st) = (w', st') \<Longrightarrow>
   patches w' = patches w \<and> audit_files w' = audit_files w
   \<and> length (results_feed w') + classified st = length (results_feed w) + classified st'
   \<and> take (length (results_feed w)) (results_feed w') = results_feed w"
proof (induction incs arbitrary: w st)
  case Nil
  then show ?case by simp
next
  case (Cons inc incs)
  obtain w1 st1 where step: "process_incident e True None run_ts cc sc ic uc (w, st) inc = (w1, st1)"
    by force
  with Cons.prems have rest: "process_loop e True None run_ts cc sc ic uc incs (w1, st1) = (w', st')"
    by simp
  note a = process_incident_dry_frame [OF step] and b = Cons.IH [OF rest]
  have "length (results_feed w) \<le> length (results_feed w1)"
    using a by (metis nat_le_linear take_all_iff order_refl)
  then have "take (length (results_feed w)) (results_feed w') = results_feed w"
    using a b by (metis min.absorb2 take_take min.commute)
  with a b show ?case
    by simp
qed

lemma process_incident_not_ok:
  assumes "\<not> classified_ok (fst (classify e w (or_empty (inc ''short_description'')) cc sc ic uc))"
  shows "\<exists>l. process_incident e dry path run_ts cc sc ic uc (w, st) inc =
           ((snd (classify e w (or_empty (inc ''short_description'')) cc sc ic uc))
              \<lparr>log_lines := log_lines w @ [l]\<rparr>, st\<lparr>errors := errors st + 1\<rparr>)
         \<and> classification_failure l"
proof -
  let ?d = "or_empty (inc ''short_description'')"
  obtain r w1 where c: "classify e w ?d cc sc ic uc = (r, w1)"
    by force
  have w1: "log_lines w1 = log_lines w"
    using classify_frame [of e w ?d cc sc ic uc] c by simp
  show ?thesis
  proof (cases r)
    case (Inl err)
    then show ?thesis
      using w1 c
      by (intro exI [of _ "ErrorProcessing err"])
         (simp add: process_incident_raised [where inc = inc and ?w1.0 = w1 and err = err, OF c [unfolded Inl]]
            classification_failure_def)
  next
    case (Inr cl)
    show ?thesis
    proof (cases cl)
      case (FAILED s)
      then show ?thesis
        using w1 c Inr
        by (intro exI [of _ "ClassificationFailed s"])
           (simp add: process_incident_failed [where inc = inc and ?w1.0 = w1 and s = s, OF c [unfolded Inr FAILED]]
              classification_failure_def)
    next
      case (SUCCESS d)
      then show ?thesis
        using assms c Inr by (simp add: classified_ok_def)
    qed
  qed
qed

lemma set_when_given_apply:
  "set_when_given key value d k
     = (if k = key \<and> value \<noteq> None \<and> value \<noteq> Some [] then value else d k)"
  by (simp add: set_when_given_def split: option.splits)

lemma update_data_fields:
  "update_data e w cat conf ag wn sn sub imp urg ''category''
     = (case sn of Some s \<Rightarrow> if s \<noteq> [] then Some (take 40 s) else None | None \<Rightarrow> None)"
  "update_data e w cat conf ag wn sn sub imp urg ''u_auto_classification_category'' = Some cat"
  "update_data e w cat conf ag wn sn sub imp urg ''u_confidence_score''
     = Some (str_of_float e (py_round (conf * 100) 2))"
  "update_data e w cat conf ag wn sn sub imp urg ''u_auto_classified'' = Some ''true''"
  "update_data e w cat conf ag wn sn sub imp urg ''u_classification_timestamp''
     = Some (utcnow_isoformat e (ticks w))"
  "update_data e w cat conf ag wn sn sub imp urg ''work_notes''
     = Some (case wn of
               Some n \<Rightarrow> if n \<noteq> [] then n else default_work_notes e cat conf
             | None \<Rightarrow> default_work_notes e cat conf)"
  by (simp_all add: update_data_def Let_def set_when_given_apply split: option.splits)


lemma rollback_note_not_empty: "rollback_note old_category new_category \<noteq> []"
  by (simp add: rollback_note_def)

lemma rollback_loop_requests:
  "\<exists>ps. patches (rollback_loop e True acts w) = patches w @ ps \<and> list_all2 rollback_request acts ps"
proof (induction acts arbitrary: w)
  case Nil
  then show ?case by simp
next
  case (Cons a acts)
  obtain ticket_id ticket_number old_category new_category
    where a: "a = (ticket_id, ticket_number, old_category, new_category)"
    by (cases a) auto
  let ?body = "update_data e w old_category 0 None (patch_data old_category new_category ''work_notes'')
                 (Some old_category) None None None"
  let ?p = "(ticket_id, ?body, requests_patch e (length (patches w)) ticket_id ?body)"
  let ?w1 = "snd (update_incident e False w ticket_id old_category 0 None
                    (patch_data old_category new_category ''work_notes'') (Some old_category)
                    None None None)"
  have p: "patches ?w1 = patches w @ [?p]"
    by (simp add: update_incident_live)
  have ok: "rollback_request a ?p"
    by (simp add: a rollback_request_def update_data_fields patch_data_def rollback_note_not_empty)
  from Cons.IH [of ?w1] obtain ps
    where ps: "patches (rollback_loop e True acts ?w1) = patches ?w1 @ ps"
      and all: "list_all2 rollback_request acts ps"
    by blast
  have "patches (rollback_loop e True (a # acts) w) = patches w @ (?p # ps)"
    using ps p by (simp add: a)
  moreover have "list_all2 rollback_request (a # acts) (?p # ps)"
    using ok all by simp
  ultimately show ?case
    by blast
qed

lemma main_requests:
  assumes "audit_files w audit_file = Some rows"
  shows "\<exists>ps. patches (main e w audit_file True) = patches w @ ps
           \<and> list_all2 rollback_request (map row_action rows) ps"
  using assms rollback_loop_requests [of e "map row_action rows" w]
  by (simp add: main_def)




lemma validate_result_invalid:
  "out_of_vocabulary kvs cc sc ic uc \<Longrightarrow>
   \<exists>field v. validate_result e (PDict kvs) cc sc ic uc = Inl (InvalidValue field v)"
  by (auto simp: validate_result_def out_of_vocabulary_def Let_def split: option.splits)

subsection \<open>The audit round trip\<close>

text \<open>
  A live cycle that starts without an audit file of its run timestamp leaves exactly one
  row per successful update in that file, and the rollback with the commit flag sends
  exactly one request per row, built as \<open>rollback_request\<close> describes.
\<close>

lemma rows_at_append_audit_entry:
  "rows_at (append_audit_entry e w p tn tid oc nc conf ts dry) p = rows_at w p @
     [[''run_timestamp'' \<mapsto> ts, ''ticket_number'' \<mapsto> or_empty tn, ''ticket_id'' \<mapsto> or_empty tid,
       ''old_category'' \<mapsto> or_empty oc, ''new_category'' \<mapsto> nc,
       ''confidence'' \<mapsto> format_fixed3 e conf,
       ''dry_run'' \<mapsto> (if dry then ''True'' else ''False'')]]"
  by (simp add: append_audit_entry_def rows_at_def)

lemma process_incident_live_rows:
  assumes "process_incident e False (Some p) run_ts cc sc ic uc (w, st) inc = (w', st')"
  shows "length (rows_at w' p) + updated st = length (rows_at w p) + updated st'"
proof -
  let ?d = "or_empty (inc ''short_description'')"
  obtain r w1 where c: "classify e w ?d cc sc ic uc = (r, w1)"
    by force
  have w1: "audit_files w1 = audit_files w"
    using classify_frame [of e w ?d cc sc ic uc] c by simp
  show ?thesis
  proof (cases r)
    case (Inl err)
    then show ?thesis
      using assms w1
      by (auto simp: rows_at_def
            process_incident_raised [where inc = inc and ?w1.0 = w1 and err = err, OF c [unfolded Inl]])
  next
    case (Inr cl)
    show ?thesis
    proof (cases cl)
      case (FAILED s)
      then show ?thesis
        using assms w1
        by (auto simp: rows_at_def
              process_incident_failed [where inc = inc and ?w1.0 = w1 and s = s, OF c [unfolded Inr FAILED]])
    next
      case (SUCCESS d)
      then have c': "classify e w ?d cc sc ic uc = (Inr (SUCCESS d), w1)"
        using c Inr by simp
      let ?w2 = "append_task_result e w1 (inc ''sys_id'') ?d (category d) (confidence d) []
                   (perf_ms e (ticks w1))"
      let ?res = "update_incident e False (?w2\<lparr>ticks := ticks ?w2 + 1\<rparr>) (inc ''sys_id'') (category d)
                    (confidence d) None
                    (Some (''Auto-classified as '' @ category d @ '' (''
                       @ format_percent e (confidence d) @ '')'' @ [CHR 0x0A]
                       @ ''Keywords matched: '' @ [CHR 0x0A]
                       @ ''Processed by Task Classifier at '' @ utcnow_isoformat e (ticks ?w2)))
                    (Some (category d)) (str_arg (subcategory d)) (Some (impact d)) (Some (urgency d))"
      have res: "rows_at (snd ?res) p = rows_at w p"
        using update_incident_frame [of e False "?w2\<lparr>ticks := ticks ?w2 + 1\<rparr>"] w1
        by (simp add: append_task_result_frame rows_at_def)
      note step = process_incident_success [where inc = inc and d = d and ?w1.0 = w1 and dry = False
          and path = "Some p" and run_ts = run_ts and st = st, OF c', unfolded Let_def]
      show ?thesis
      proof (cases "fst ?res")
        case True
        then have "st' = st\<lparr>classified := classified st + 1, updated := updated st + 1\<rparr>"
          and "length (rows_at w' p) = Suc (length (rows_at w p))"
          using assms step res by (auto simp: rows_at_append_audit_entry)
        then show ?thesis by simp
      next
        case False
        then have "st' = st\<lparr>classified := classified st + 1, errors := errors st + 1\<rparr>"
          and "rows_at w' p = rows_at w p"
          using assms step res by (auto simp: rows_at_def)
        then show ?thesis by simp
      qed
    qed
  qed
qed

lemma process_loop_live_rows:
  "process_loop e False (Some p) run_ts cc sc ic uc incs (w, st) = (w', st') \<Longrightarrow>
   length (rows_at w' p) + updated st = length (rows_at w p) + updated st'"
proof (induction incs arbitrary: w st)
  case Nil
  then show ?case by simp
next
  case (Cons inc incs)
  obtain w1 st1 where step: "process_incident e False (Some p) run_ts cc sc ic uc (w, st) inc = (w1, st1)"
    by force
  with Cons.prems have rest: "process_loop e False (Some p) run_ts cc sc ic uc incs (w1, st1) = (w', st')"
    by simp
  from process_incident_live_rows [OF step] Cons.IH [OF rest] show ?case
    by simp
qed

lemma live_cycle_round_trip:
  assumes run: "process_tickets e False w limit sample_size = (st, w')"
    and fresh: "audit_files w (audit_path e w) = None"
  shows "length (rows_at w' (audit_path e w)) = updated st
     \<and> (\<exists>ps. patches (main e' w' (audit_path e w) True) = patches w' @ ps
             \<and> length ps = updated st
             \<and> list_all2 rollback_request (map row_action (rows_at w' (audit_path e w))) ps)"
proof -
  let ?p = "audit_path e w"
  let ?fetched = "get_new_incidents e limit"
  let ?st0 = "\<lparr>retrieved = length ?fetched, classified = 0, updated = 0, errors = 0\<rparr>"
  consider (none) "updated st = 0" "audit_files w' = audit_files w"
    | (loop) run_ts cc sc ic uc w1 incs where
        "process_loop e False (Some ?p) run_ts cc sc ic uc incs (w1, ?st0) = (w', st)"
        "audit_files w1 = audit_files w"
    using run
    by (auto simp: process_tickets_def Let_def split: if_splits)
  then have n: "length (rows_at w' ?p) = updated st"
  proof cases
    case none
    then show ?thesis
      using fresh by (simp add: rows_at_def)
  next
    case loop
    from process_loop_live_rows [OF loop(1)] loop(2) fresh show ?thesis
      by (simp add: rows_at_def)
  qed
  show ?thesis
  proof (cases "audit_files w' ?p")
    case None
    then have "rows_at w' ?p = []" and "main e' w' ?p True = w'"
      by (simp_all add: rows_at_def main_def)
    with n show ?thesis
      by simp
  next
    case (Some rows)
    then have r: "rows_at w' ?p = rows"
      by (simp add: rows_at_def)
    from main_requests [OF Some, of e'] obtain ps
      where ps: "patches (main e' w' ?p True) = patches w' @ ps"
        and all: "list_all2 rollback_request (map row_action rows) ps"
      by blast
    from all have "length ps = length rows"
      by (simp add: list_all2_lengthD [symmetric])
    with n r ps all show ?thesis
      by auto
  qed
qed

section \<open>The claims\<close>

text \<open>
  C1, as amended. When the decoded reply has a category, impact or urgency outside its
  choice list, or a truthy subcategory outside the subcategory choices, \<^verbatim>\<open>classify\<close> raises
  the invalid-value error, and the cycle counts the incident as one error, sends no update
  and writes no audit row.
\<close>

theorem out_of_vocabulary_reply_is_rejected:
  assumes "or_empty (inc ''short_description'') \<noteq> []"
    and "call_azure_openai e (length (llm_calls w))
           (or_empty (inc ''short_description''), cc, sc, ic, uc) = Some raw"
    and "extract_json e raw = Inr (PDict kvs)"
    and "member_of (dict_get kvs ''category'') cc = None
         \<or> (truthy (dict_get kvs ''subcategory'') \<and> member_of (dict_get kvs ''subcategory'') sc = None)
         \<or> member_of (dict_get kvs ''impact'') ic = None
         \<or> member_of (dict_get kvs ''urgency'') uc = None"
  shows "\<exists>field v.
           classify e w (or_empty (inc ''short_description'')) cc sc ic uc
             = (Inl (InvalidValue field v),
                w\<lparr>llm_calls := llm_calls w @ [(or_empty (inc ''short_description''), cc, sc, ic, uc)]\<rparr>)
           \<and> process_incident e dry_run path run_ts cc sc ic uc (w, st) inc
               = (w\<lparr>llm_calls := llm_calls w @ [(or_empty (inc ''short_description''), cc, sc, ic, uc)],
                    log_lines := log_lines w @ [ErrorProcessing (InvalidValue field v)]\<rparr>,
                  st\<lparr>errors := errors st + 1\<rparr>)
           \<and> patches (fst (process_incident e dry_run path run_ts cc sc ic uc (w, st) inc)) = patches w
           \<and> audit_files (fst (process_incident e dry_run path run_ts cc sc ic uc (w, st) inc))
               = audit_files w"
proof -
  let ?d = "or_empty (inc ''short_description'')"
  let ?w1 = "w\<lparr>llm_calls := llm_calls w @ [(?d, cc, sc, ic, uc)]\<rparr>"
  from assms(4) have "out_of_vocabulary kvs cc sc ic uc"
    by (simp add: out_of_vocabulary_def)
  from validate_result_invalid [OF this, of e] obtain field v
    where bad: "validate_result e (PDict kvs) cc sc ic uc = Inl (InvalidValue field v)"
    by blast
  have c: "classify e w ?d cc sc ic uc = (Inl (InvalidValue field v), ?w1)"
    using assms(1-3) bad by (simp add: classify_def Let_def)
  have "process_incident e dry_run path run_ts cc sc ic uc (w, st) inc
          = (?w1\<lparr>log_lines := log_lines ?w1 @ [ErrorProcessing (InvalidValue field v)]\<rparr>,
             st\<lparr>errors := errors st + 1\<rparr>)"
    by (rule process_incident_raised [where inc = inc, OF c])
  then have p: "process_incident e dry_run path run_ts cc sc ic uc (w, st) inc
          = (w\<lparr>llm_calls := llm_calls w @ [(?d, cc, sc, ic, uc)],
               log_lines := log_lines w @ [ErrorProcessing (InvalidValue field v)]\<rparr>,
             st\<lparr>errors := errors st + 1\<rparr>)"
    by simp
  show ?thesis
    by (intro exI [of _ field] exI [of _ v]) (simp add: c p)
qed

theorem out_of_vocabulary_reply_is_rejected_witness:
  "or_empty (ticket ''8'' ''printer jam'' ''inquiry'' ''short_description'') \<noteq> []
   \<and> extract_json unknown_category_env ''printer jam''
       = Inr (PDict [(''category'', PStr ''Hardware''), (''subcategory'', PNone),
                     (''impact'', PStr ''2''), (''urgency'', PStr ''3''),
                     (''confidence'', PFloat (9 / 10))])
   \<and> member_of (PStr ''Hardware'') demo_categories = None
   \<and> (\<exists>field v.
         process_incident unknown_category_env False (Some ''outputs/audit_20260113T115055Z.csv'')
             ''20260113T115055Z'' demo_categories [''Email'', ''VPN''] demo_choices demo_choices
             (world0, \<lparr>retrieved = 1, classified = 0, updated = 0, errors = 0\<rparr>)
             (ticket ''8'' ''printer jam'' ''inquiry'')
           = (world0\<lparr>llm_calls := [(''printer jam'', demo_categories, [''Email'', ''VPN''],
                                        demo_choices, demo_choices)],
                      log_lines := [ErrorProcessing (InvalidValue field v)]\<rparr>,
              \<lparr>retrieved = 1, classified = 0, updated = 0, errors = 1\<rparr>))
   \<and> fst (process_tickets unknown_category_env False world0 50 None)
       = \<lparr>retrieved = 1, classified = 0, updated = 0, errors = 1\<rparr>
   \<and> patches (snd (process_tickets unknown_category_env False world0 50 None)) = []
   \<and> rows_at (snd (process_tickets unknown_category_env False world0 50 None))
        ''outputs/audit_20260113T115055Z.csv'' = []"
proof -
  let ?inc = "ticket ''8'' ''printer jam'' ''inquiry''"
  let ?kvs = "[(''category'', PStr ''Hardware''), (''subcategory'', PNone),
               (''impact'', PStr ''2''), (''urgency'', PStr ''3''),
               (''confidence'', PFloat (9 / 10))]"
  have d: "or_empty (?inc ''short_description'') = ''printer jam''"
    by (simp add: ticket_def or_empty_def)
  have h1: "or_empty (?inc ''short_description'') \<noteq> []"
    by (simp add: d)
  have h2: "call_azure_openai unknown_category_env (length (llm_calls world0))
              (or_empty (?inc ''short_description''), demo_categories, [''Email'', ''VPN''],
               demo_choices, demo_choices) = Some ''printer jam''"
    by (simp add: d unknown_category_env_def scripted_env_def)
  have h3: "extract_json unknown_category_env ''printer jam'' = Inr (PDict ?kvs)"
    by (simp add: unknown_category_env_def scripted_env_def extract_json_def demo_replies_def reply_def)
  have m: "member_of (PStr ''Hardware'') demo_categories = None"
    by (simp add: demo_categories_def)
  then have h4: "member_of (dict_get ?kvs ''category'') demo_categories = None
         \<or> (truthy (dict_get ?kvs ''subcategory'')
             \<and> member_of (dict_get ?kvs ''subcategory'') [''Email'', ''VPN''] = None)
         \<or> member_of (dict_get ?kvs ''impact'') demo_choices = None
         \<or> member_of (dict_get ?kvs ''urgency'') demo_choices = None"
    by (simp add: dict_get_def)
  from out_of_vocabulary_reply_is_rejected
         [where inc = ?inc and e = unknown_category_env and w = world0 and dry_run = False
            and path = "Some ''outputs/audit_20260113T115055Z.csv''" and run_ts = "''20260113T115055Z''"
            and st = "\<lparr>retrieved = 1, classified = 0, updated = 0, errors = 0\<rparr>",
          OF h1 h2 h3 h4]
  have step: "\<exists>field v.
         process_incident unknown_category_env False (Some ''outputs/audit_20260113T115055Z.csv'')
             ''20260113T115055Z'' demo_categories [''Email'', ''VPN''] demo_choices demo_choices
             (world0, \<lparr>retrieved = 1, classified = 0, updated = 0, errors = 0\<rparr>) ?inc
           = (world0\<lparr>llm_calls := [(''printer jam'', demo_categories, [''Email'', ''VPN''],
                                        demo_choices, demo_choices)],
                      log_lines := [ErrorProcessing (InvalidValue field v)]\<rparr>,
              \<lparr>retrieved = 1, classified = 0, updated = 0, errors = 1\<rparr>)"
    by (auto simp: d world0_def)
  have run: "fst (process_tickets unknown_category_env False world0 50 None)
       = \<lparr>retrieved = 1, classified = 0, updated = 0, errors = 1\<rparr>"
    "patches (snd (process_tickets unknown_category_env False world0 50 None)) = []"
    "rows_at (snd (process_tickets unknown_category_env False world0 50 None))
        ''outputs/audit_20260113T115055Z.csv'' = []"
    by (simp_all add: unknown_category_env_def run_defs)
  from h1 h3 m step run show ?thesis
    by (simp only: simp_thms)
qed

text \<open>
  The claim as first stated fails for a subcategory that is the empty string: it is not
  null and not a listed choice, yet the reply is accepted and the ticket is updated.
\<close>

theorem blank_subcategory_accepted_counterexample:
  "PStr [] \<noteq> PNone
   \<and> member_of (PStr []) [''Email'', ''VPN''] = None
   \<and> validate_result blank_subcategory_env (reply ''Database'' (PStr []) (PFloat (1 / 2)))
        demo_categories [''Email'', ''VPN''] demo_choices demo_choices
       = Inr \<lparr>category = ''Database'', subcategory = PStr [], impact = ''2'', urgency = ''3'',
              confidence = 1 / 2\<rparr>
   \<and> fst (process_tickets blank_subcategory_env False world0 50 None)
       = \<lparr>retrieved = 1, classified = 1, updated = 1, errors = 0\<rparr>
   \<and> map fst (patches (snd (process_tickets blank_subcategory_env False world0 50 None))) = [Some ''4'']
   \<and> map (row_field ''ticket_id'')
         (rows_at (snd (process_tickets blank_subcategory_env False world0 50 None))
            ''outputs/audit_20260113T115055Z.csv'') = [Some ''4'']"
  by (simp add: blank_subcategory_env_def demo_choices_def row_field_def run_defs)

text \<open>
  C2, at an incident without a category. The live cycle updates the ticket and writes one
  audit row with an empty \<^verbatim>\<open>old_category\<close>; the rollback with the commit flag sends one
  request for that row, and the request has no \<^verbatim>\<open>category\<close> field, although \<^verbatim>\<open>patch_data\<close>
  holds the empty category to restore.
\<close>

theorem rollback_leaves_blank_category_unrestored:
  "fst (process_tickets uncategorised_env False world0 50 None)
     = \<lparr>retrieved = 1, classified = 1, updated = 1, errors = 0\<rparr>
   \<and> map (row_field ''ticket_id'')
         (rows_at (snd (process_tickets uncategorised_env False world0 50 None))
            ''outputs/audit_20260113T115055Z.csv'') = [Some ''3'']
   \<and> map (row_field ''old_category'')
         (rows_at (snd (process_tickets uncategorised_env False world0 50 None))
            ''outputs/audit_20260113T115055Z.csv'') = [Some []]
   \<and> map (row_field ''new_category'')
         (rows_at (snd (process_tickets uncategorised_env False world0 50 None))
            ''outputs/audit_20260113T115055Z.csv'') = [Some ''Software'']
   \<and> map fst (patches (main uncategorised_env (snd (process_tickets uncategorised_env False world0 50 None))
                          ''outputs/audit_20260113T115055Z.csv'' True)) = [Some ''3'', Some ''3'']
   \<and> map (body_field ''category'')
         (patches (main uncategorised_env (snd (process_tickets uncategorised_env False world0 50 None))
                     ''outputs/audit_20260113T115055Z.csv'' True)) = [Some ''Software'', None]
   \<and> patch_data [] ''Software'' ''category'' = Some []"
  by (simp add: uncategorised_env_def row_field_def body_field_def main_def row_action_def patch_data_def
        rollback_note_def run_defs)

text \<open>
  C3, at one audit row. The request of the rollback restores the category and carries
  the rollback note, but it sets \<^verbatim>\<open>u_auto_classified\<close> to \<^verbatim>\<open>true\<close> and
  \<^verbatim>\<open>u_auto_classification_category\<close> to the old category, where \<^verbatim>\<open>patch_data\<close> holds \<^verbatim>\<open>false\<close> and
  the empty string.
\<close>

theorem rollback_keeps_classification_markers:
  "map fst (patches (main demo_env (audit_world [audit_row_of ''1'' ''inquiry'' ''Network''])
                       ''outputs/audit_20260113T115055Z.csv'' True)) = [Some ''1'']
   \<and> map (body_field ''category'')
         (patches (main demo_env (audit_world [audit_row_of ''1'' ''inquiry'' ''Network''])
                     ''outputs/audit_20260113T115055Z.csv'' True)) = [Some ''inquiry'']
   \<and> map (body_field ''work_notes'')
         (patches (main demo_env (audit_world [audit_row_of ''1'' ''inquiry'' ''Network''])
                     ''outputs/audit_20260113T115055Z.csv'' True))
       = [Some (rollback_note ''inquiry'' ''Network'')]
   \<and> map (body_field ''u_auto_classified'')
         (patches (main demo_env (audit_world [audit_row_of ''1'' ''inquiry'' ''Network''])
                     ''outputs/audit_20260113T115055Z.csv'' True)) = [Some ''true'']
   \<and> map (body_field ''u_auto_classification_category'')
         (patches (main demo_env (audit_world [audit_row_of ''1'' ''inquiry'' ''Network''])
                     ''outputs/audit_20260113T115055Z.csv'' True)) = [Some ''inquiry'']
   \<and> patch_data ''inquiry'' ''Network'' ''u_auto_classified'' = Some ''false''
   \<and> patch_data ''inquiry'' ''Network'' ''u_auto_classification_category'' = Some []"
  by (simp add: demo_env_def body_field_def rollback_defs or_empty_def update_incident_def
        update_data_def set_when_given_def scripted_env_def world0_def Let_def)

text \<open>
  C4. When the fetched incident list is non-empty and the category, impact or urgency
  vocabulary is empty, the cycle returns at once with \<open>retrieved\<close> the number of fetched
  incidents and the other counters zero. The world changes only by the error line of the
  abort: no completion request and no update is made.
\<close>

theorem missing_vocabulary_aborts_cycle:
  assumes "get_new_incidents e limit \<noteq> []"
    and "get_choice_values e ''category'' = []
         \<or> get_priority_lookup_values e ''impact'' \<in> {None, Some []}
         \<or> get_priority_lookup_values e ''urgency'' \<in> {None, Some []}"
  shows "process_tickets e dry_run w limit sample_size =
           (\<lparr>retrieved = length (get_new_incidents e limit), classified = 0, updated = 0, errors = 0\<rparr>,
            w\<lparr>log_lines := log_lines w @ [MissingChoices]\<rparr>)"
  using assms by (auto simp: process_tickets_def Let_def)

theorem missing_vocabulary_aborts_cycle_witness:
  "get_new_incidents no_choices_env 50 \<noteq> []
   \<and> get_choice_values no_choices_env ''category'' = []
   \<and> process_tickets no_choices_env False world0 50 None =
        (\<lparr>retrieved = 2, classified = 0, updated = 0, errors = 0\<rparr>,
         world0\<lparr>log_lines := log_lines world0 @ [MissingChoices]\<rparr>)
   \<and> llm_calls (snd (process_tickets no_choices_env False world0 50 None)) = []
   \<and> patches (snd (process_tickets no_choices_env False world0 50 None)) = []"
proof -
  have h1: "get_new_incidents no_choices_env 50 \<noteq> []"
    and h2: "get_choice_values no_choices_env ''category'' = []"
    and n: "length (get_new_incidents no_choices_env 50) = 2"
    by (simp_all add: no_choices_env_def scripted_env_def)
  from missing_vocabulary_aborts_cycle [of no_choices_env 50 False world0 None, OF h1] h2
  have "process_tickets no_choices_env False world0 50 None =
        (\<lparr>retrieved = 2, classified = 0, updated = 0, errors = 0\<rparr>,
         world0\<lparr>log_lines := log_lines world0 @ [MissingChoices]\<rparr>)"
    by (simp add: n)
  with h1 h2 show ?thesis
    by (simp add: world0_def)
qed

text \<open>
  C5. For every completed cycle the returned counters satisfy
  \<open>updated \<le> classified \<le> retrieved\<close>, and the classified incidents together with the
  classification failures logged during the cycle are at most the retrieved incidents.
\<close>

theorem cycle_counters_ordered:
  "process_tickets e dry_run w limit sample_size = (st, w') \<Longrightarrow>
   updated st \<le> classified st \<and> classified st \<le> retrieved st
   \<and> classified st + classification_failures (log_lines w')
        \<le> retrieved st + classification_failures (log_lines w)"
proof -
  assume run: "process_tickets e dry_run w limit sample_size = (st, w')"
  let ?fetched = "get_new_incidents e limit"
  let ?st0 = "\<lparr>retrieved = length ?fetched, classified = 0, updated = 0, errors = 0\<rparr>"
  let ?incs = "(case sample_size of Some n \<Rightarrow> if 0 < n then take (nat n) ?fetched else ?fetched
                | None \<Rightarrow> ?fetched)"
  have len: "length ?incs \<le> length ?fetched"
    by (simp split: option.splits)
  consider (none) "st = ?st0" "classification_failures (log_lines w') = classification_failures (log_lines w)"
    | (loop) path run_ts cc sc ic uc w1 where
        "process_loop e dry_run path run_ts cc sc ic uc ?incs (w1, ?st0) = (w', st)"
        "log_lines w1 = log_lines w"
    using run
    by (auto simp: process_tickets_def Let_def split: if_splits)
  then show ?thesis
  proof cases
    case none
    then show ?thesis by simp
  next
    case loop
    have f1: "retrieved st = length ?fetched"
      and f2: "classified st + classification_failures (log_lines w')
             = classification_failures (log_lines w) + length ?incs"
      and f3: "updated st \<le> classified st"
      and f4: "classified st \<le> length ?incs"
      using process_loop_counters [OF loop(1)] loop(2) by simp_all
    have arith: "\<And>n r c u a b :: nat. n \<le> r \<Longrightarrow> c + a = b + n \<Longrightarrow> u \<le> c \<Longrightarrow> c \<le> n
        \<Longrightarrow> u \<le> c \<and> c \<le> r \<and> c + a \<le> r + b"
      by linarith
    show ?thesis
      unfolding f1 by (rule arith [OF len f2 f3 f4])
  qed
qed

theorem cycle_counters_ordered_witness:
  "\<exists>st w'. process_tickets demo_env False world0 50 None = (st, w')
     \<and> (retrieved st, classified st, updated st, errors st) = (3, 2, 2, 1)
     \<and> classification_failures (log_lines w') = 1
     \<and> updated st \<le> classified st \<and> classified st \<le> retrieved st
     \<and> classified st + classification_failures (log_lines w')
          \<le> retrieved st + classification_failures (log_lines world0)"
proof -
  obtain st w' where run: "process_tickets demo_env False world0 50 None = (st, w')"
    by force
  have "fst (process_tickets demo_env False world0 50 None)
          = \<lparr>retrieved = 3, classified = 2, updated = 2, errors = 1\<rparr>"
    and "log_lines (snd (process_tickets demo_env False world0 50 None))
          = [ClassificationFailed ''Empty description'']"
    by (simp_all add: demo_env_def run_defs)
  with run have vals: "(retrieved st, classified st, updated st, errors st) = (3, 2, 2, 1)"
    "classification_failures (log_lines w') = 1"
    by simp_all
  from cycle_counters_ordered [OF run] run vals show ?thesis
    by blast
qed

text \<open>
  C6. In dry-run mode the update operation reports success and leaves the world as it
  is, and a whole cycle sends no PATCH request and creates or changes no audit file, while
  the result feed keeps its records and grows by one record per classified incident.
\<close>

theorem dry_run_cycle_frame:
  "update_incident e True w0 ticket_id cat conf assignment_group work_notes snow_category sub imp urg
     = (True, w0)
   \<and> (process_tickets e True w limit sample_size = (st, w') \<longrightarrow>
        patches w' = patches w \<and> audit_files w' = audit_files w
        \<and> length (results_feed w') = length (results_feed w) + classified st
        \<and> take (length (results_feed w)) (results_feed w') = results_feed w)"
proof (intro conjI impI)
  show "update_incident e True w0 ticket_id cat conf assignment_group work_notes snow_category sub imp urg
          = (True, w0)"
    by (rule update_incident_dry)
next
  assume run: "process_tickets e True w limit sample_size = (st, w')"
  let ?fetched = "get_new_incidents e limit"
  let ?st0 = "\<lparr>retrieved = length ?fetched, classified = 0, updated = 0, errors = 0\<rparr>"
  consider (none) "classified st = 0" "patches w' = patches w" "audit_files w' = audit_files w"
        "results_feed w' = results_feed w"
    | (loop) run_ts cc sc ic uc w1 incs where
        "process_loop e True None run_ts cc sc ic uc incs (w1, ?st0) = (w', st)"
        "patches w1 = patches w" "audit_files w1 = audit_files w" "results_feed w1 = results_feed w"
    using run
    by (auto simp: process_tickets_def Let_def split: if_splits)
  then have "patches w' = patches w \<and> audit_files w' = audit_files w
        \<and> length (results_feed w') = length (results_feed w) + classified st
        \<and> take (length (results_feed w)) (results_feed w') = results_feed w"
  proof cases
    case none
    then show ?thesis by simp
  next
    case loop
    from process_loop_dry_frame [OF loop(1)] loop(2-4) show ?thesis
      by simp
  qed
  then show "patches w' = patches w" and "audit_files w' = audit_files w"
    and "length (results_feed w') = length (results_feed w) + classified st"
    and "take (length (results_feed w)) (results_feed w') = results_feed w"
    by simp_all
qed

theorem dry_run_cycle_frame_witness:
  "\<exists>st w'. process_tickets demo_env True world0 50 None = (st, w')
     \<and> classified st = 2 \<and> patches w' = [] \<and> audit_files w' = Map.empty
     \<and> length (results_feed w') = 2"
proof -
  obtain st w' where run: "process_tickets demo_env True world0 50 None = (st, w')"
    by force
  have "classified (fst (process_tickets demo_env True world0 50 None)) = 2"
    by (simp add: demo_env_def run_defs)
  with run have c: "classified st = 2"
    by simp
  from dry_run_cycle_frame [of demo_env world0 None "[]" 0 None None None None None None world0 50 None st w']
    run c
  show ?thesis
    by (simp add: world0_def)
qed




text \<open>
  C8. \<^verbatim>\<open>classify\<close> on an empty description returns the failure \<open>Empty description\<close> without
  a completion request. Within the loop, an incident whose classification fails adds one
  to \<open>errors\<close>, changes no other counter, sends no update and writes no record, and the
  incidents after it are processed in their order from the state it leaves.
\<close>

theorem empty_description_and_failure_isolation:
  "classify e w [] cc sc ic uc = (Inr (FAILED ''Empty description''), w)
   \<and> (\<not> classified_ok (fst (classify e (fst (process_loop e dry path ts cc sc ic uc pre state))
                               (or_empty (inc ''short_description'')) cc sc ic uc)) \<longrightarrow>
        (let s1 = process_loop e dry path ts cc sc ic uc pre state;
             s2 = process_incident e dry path ts cc sc ic uc s1 inc
         in process_loop e dry path ts cc sc ic uc (pre @ inc # post) state
              = process_loop e dry path ts cc sc ic uc post s2
            \<and> errors (snd s2) = errors (snd s1) + 1
            \<and> classified (snd s2) = classified (snd s1)
            \<and> updated (snd s2) = updated (snd s1)
            \<and> patches (fst s2) = patches (fst s1)
            \<and> results_feed (fst s2) = results_feed (fst s1)
            \<and> audit_files (fst s2) = audit_files (fst s1)))"
proof (intro conjI impI)
  show "classify e w [] cc sc ic uc = (Inr (FAILED ''Empty description''), w)"
    by (rule classify_empty)
next
  let ?s1 = "process_loop e dry path ts cc sc ic uc pre state"
  assume bad: "\<not> classified_ok (fst (classify e (fst ?s1) (or_empty (inc ''short_description'')) cc sc ic uc))"
  obtain w1 st1 where s1: "?s1 = (w1, st1)"
    by force
  from process_incident_not_ok [of e w1 inc cc sc ic uc dry path ts st1] bad s1
  obtain l where step: "process_incident e dry path ts cc sc ic uc (w1, st1) inc =
           ((snd (classify e w1 (or_empty (inc ''short_description'')) cc sc ic uc))
              \<lparr>log_lines := log_lines w1 @ [l]\<rparr>, st1\<lparr>errors := errors st1 + 1\<rparr>)"
    by auto
  show "let s1 = ?s1; s2 = process_incident e dry path ts cc sc ic uc s1 inc
         in process_loop e dry path ts cc sc ic uc (pre @ inc # post) state
              = process_loop e dry path ts cc sc ic uc post s2
            \<and> errors (snd s2) = errors (snd s1) + 1
            \<and> classified (snd s2) = classified (snd s1)
            \<and> updated (snd s2) = updated (snd s1)
            \<and> patches (fst s2) = patches (fst s1)
            \<and> results_feed (fst s2) = results_feed (fst s1)
            \<and> audit_files (fst s2) = audit_files (fst s1)"
    using classify_frame [of e w1 "or_empty (inc ''short_description'')" cc sc ic uc]
    by (simp add: Let_def process_loop_append s1 step)
qed

theorem empty_description_and_failure_isolation_witness:
  "\<not> classified_ok (fst (classify five_env (fst (five_loop [ticket ''1'' ''vpn down'' ''inquiry''] five_start))
                           (or_empty (ticket ''2'' [] ''inquiry'' ''short_description''))
                           demo_categories [''Email'', ''VPN''] [''1'', ''2'', ''3''] [''1'', ''2'', ''3'']))
   \<and> five_loop five_tickets five_start
       = five_loop [ticket ''3'' ''mail bounces'' [], ticket ''4'' ''disk full'' ''inquiry'',
                    ticket ''5'' ''vpn down'' ''hardware'']
           (process_incident five_env True None ''20260113T115055Z'' demo_categories [''Email'', ''VPN'']
              [''1'', ''2'', ''3''] [''1'', ''2'', ''3'']
              (five_loop [ticket ''1'' ''vpn down'' ''inquiry''] five_start) (ticket ''2'' [] ''inquiry''))
   \<and> snd (five_loop five_tickets five_start)
       = \<lparr>retrieved = 5, classified = 4, updated = 4, errors = 1\<rparr>
   \<and> map fst (llm_calls (fst (five_loop five_tickets five_start)))
       = [''vpn down'', ''mail bounces'', ''disk full'', ''vpn down'']"
proof -
  have h: "\<not> classified_ok (fst (classify five_env (fst (five_loop [ticket ''1'' ''vpn down'' ''inquiry''] five_start))
                           (or_empty (ticket ''2'' [] ''inquiry'' ''short_description''))
                           demo_categories [''Email'', ''VPN''] [''1'', ''2'', ''3''] [''1'', ''2'', ''3'']))"
    by (simp add: classify_def classified_ok_def ticket_def or_empty_def)
  have split: "five_tickets = [ticket ''1'' ''vpn down'' ''inquiry''] @ ticket ''2'' [] ''inquiry''
                 # [ticket ''3'' ''mail bounces'' [], ticket ''4'' ''disk full'' ''inquiry'',
                    ticket ''5'' ''vpn down'' ''hardware'']"
    by (simp add: five_tickets_def)
  have vals: "snd (five_loop five_tickets five_start)
       = \<lparr>retrieved = 5, classified = 4, updated = 4, errors = 1\<rparr>"
    "map fst (llm_calls (fst (five_loop five_tickets five_start)))
       = [''vpn down'', ''mail bounces'', ''disk full'', ''vpn down'']"
    by (simp_all add: five_loop_def five_env_def five_tickets_def five_start_def run_defs)
  from empty_description_and_failure_isolation
         [of five_env world0 demo_categories "[''Email'', ''VPN'']" "[''1'', ''2'', ''3'']"
             "[''1'', ''2'', ''3'']" True None "''20260113T115055Z''"
             "[ticket ''1'' ''vpn down'' ''inquiry'']" five_start "ticket ''2'' [] ''inquiry''"
             "[ticket ''3'' ''mail bounces'' [], ticket ''4'' ''disk full'' ''inquiry'',
               ticket ''5'' ''vpn down'' ''hardware'']"]
       h
  have "five_loop five_tickets five_start
       = five_loop [ticket ''3'' ''mail bounces'' [], ticket ''4'' ''disk full'' ''inquiry'',
                    ticket ''5'' ''vpn down'' ''hardware'']
           (process_incident five_env True None ''20260113T115055Z'' demo_categories [''Email'', ''VPN'']
              [''1'', ''2'', ''3''] [''1'', ''2'', ''3'']
              (five_loop [ticket ''1'' ''vpn down'' ''inquiry''] five_start) (ticket ''2'' [] ''inquiry''))"
    unfolding split five_loop_def [symmetric] by (simp add: Let_def five_loop_def)
  with h vals show ?thesis
    by (simp only: simp_thms)
qed





text \<open>
  C10. When \<^verbatim>\<open>snow_category\<close> is \<^verbatim>\<open>None\<close> or empty, the body of the PATCH request has no
  \<^verbatim>\<open>category\<close> field, so a record overwritten with the body keeps its category. Hence for
  an audit row with an empty \<^verbatim>\<open>old_category\<close> the request of the rollback executor carries
  no category and cannot put the empty value back.
\<close>

theorem empty_snow_category_leaves_category_out:
  "((snow_category = None \<or> snow_category = Some []) \<longrightarrow>
      patches (snd (update_incident e False w ticket_id cat conf assignment_group work_notes
                      snow_category sub imp urg))
        = patches w @ [(ticket_id,
                        update_data e w cat conf assignment_group work_notes snow_category sub imp urg,
                        requests_patch e (length (patches w)) ticket_id
                          (update_data e w cat conf assignment_group work_notes snow_category sub imp urg))]
      \<and> update_data e w cat conf assignment_group work_notes snow_category sub imp urg ''category'' = None
      \<and> (rec ++ update_data e w cat conf assignment_group work_notes snow_category sub imp urg) ''category''
          = rec ''category'')
   \<and> (audit_files w audit_file = Some rows \<longrightarrow> i < length rows \<longrightarrow>
        or_empty ((rows ! i) ''old_category'') = [] \<longrightarrow>
        (\<exists>body response.
           patches (main e w audit_file True) ! (length (patches w) + i)
             = ((rows ! i) ''ticket_id'', body, response)
           \<and> body ''category'' = None
           \<and> (rec ++ body) ''category'' = rec ''category''))"
proof (intro conjI impI)
  assume sn: "snow_category = None \<or> snow_category = Some []"
  show "patches (snd (update_incident e False w ticket_id cat conf assignment_group work_notes
                      snow_category sub imp urg))
        = patches w @ [(ticket_id,
                        update_data e w cat conf assignment_group work_notes snow_category sub imp urg,
                        requests_patch e (length (patches w)) ticket_id
                          (update_data e w cat conf assignment_group work_notes snow_category sub imp urg))]"
    by (simp add: update_incident_live)
  show none: "update_data e w cat conf assignment_group work_notes snow_category sub imp urg ''category'' = None"
    using sn by (auto simp: update_data_fields)
  show "(rec ++ update_data e w cat conf assignment_group work_notes snow_category sub imp urg) ''category''
          = rec ''category''"
    using none by (simp add: map_add_def)
next
  assume rows: "audit_files w audit_file = Some rows" and i: "i < length rows"
    and blank: "or_empty ((rows ! i) ''old_category'') = []"
  from main_requests [OF rows, of e] obtain ps
    where ps: "patches (main e w audit_file True) = patches w @ ps"
      and all: "list_all2 rollback_request (map row_action rows) ps"
    by blast
  from all have len: "length ps = length rows"
    by (simp add: list_all2_lengthD [symmetric])
  from all i have "rollback_request (row_action (rows ! i)) (ps ! i)"
    by (simp add: list_all2_conv_all_nth)
  then obtain body response where pi: "ps ! i = ((rows ! i) ''ticket_id'', body, response)"
    and none: "body ''category'' = None"
    using blank by (cases "ps ! i") (auto simp: rollback_request_def row_action_def)
  have "patches (main e w audit_file True) ! (length (patches w) + i) = ps ! i"
    using ps by simp
  with pi none show "\<exists>body response.
           patches (main e w audit_file True) ! (length (patches w) + i)
             = ((rows ! i) ''ticket_id'', body, response)
           \<and> body ''category'' = None
           \<and> (rec ++ body) ''category'' = rec ''category''"
    by (simp add: map_add_def)
qed


theorem empty_snow_category_leaves_category_out_witness:
  "(Some [] = (None :: string option) \<or> Some [] = Some ([] :: string))
   \<and> update_data demo_env world0 ''inquiry'' 0 None None (Some []) None None None ''category'' = None
   \<and> audit_files (audit_world [audit_row_of ''7'' [] ''Network'']) ''outputs/audit_20260113T115055Z.csv''
       = Some [audit_row_of ''7'' [] ''Network'']
   \<and> or_empty (([audit_row_of ''7'' [] ''Network''] ! 0) ''old_category'') = []
   \<and> (\<exists>body response.
         patches (main demo_env (audit_world [audit_row_of ''7'' [] ''Network''])
                    ''outputs/audit_20260113T115055Z.csv'' True) ! 0
           = (Some ''7'', body, response)
         \<and> body ''category'' = None
         \<and> ([''category'' \<mapsto> ''Network''] ++ body) ''category'' = Some ''Network'')"
proof -
  let ?w = "audit_world [audit_row_of ''7'' [] ''Network'']"
  have h1: "audit_files ?w ''outputs/audit_20260113T115055Z.csv'' = Some [audit_row_of ''7'' [] ''Network'']"
    by (simp add: audit_world_def)
  have h2: "or_empty (([audit_row_of ''7'' [] ''Network''] ! 0) ''old_category'') = []"
    by (simp add: audit_row_of_def or_empty_def)
  have h3: "(0::nat) < length [audit_row_of ''7'' [] ''Network'']"
    by simp
  have h4: "length (patches ?w) = 0"
    by (simp add: audit_world_def world0_def)
  note t = empty_snow_category_leaves_category_out
             [where snow_category = "Some []" and e = demo_env and w = world0 and ticket_id = None
                and cat = "''inquiry''" and conf = 0 and assignment_group = None and work_notes = None
                and sub = None and imp = None and urg = None]
  note r = empty_snow_category_leaves_category_out
             [where e = demo_env and w = ?w and rec = "[''category'' \<mapsto> ''Network'']"
                and audit_file = "''outputs/audit_20260113T115055Z.csv''"
                and rows = "[audit_row_of ''7'' [] ''Network'']" and i = 0]
  from t have a: "update_data demo_env world0 ''inquiry'' 0 None None (Some []) None None None ''category'' = None"
    by simp
  from r h1 h2 h3 h4 have b: "\<exists>body response.
         patches (main demo_env ?w ''outputs/audit_20260113T115055Z.csv'' True) ! 0
           = (Some ''7'', body, response)
         \<and> body ''category'' = None
         \<and> ([''category'' \<mapsto> ''Network''] ++ body) ''category'' = Some ''Network''"
    by (simp add: audit_row_of_def)
  from a b h1 h2 show ?thesis
    by simp
qed

end
